theory Spec2Isabelle
  imports Complex_Main "HOL-Library.Multiset"
begin

section \<open>Feature applicators of openstf: a shallow embedding\<close>

text \<open>
  The source is \<^verbatim>\<open>openstf/feature_engineering/feature_applicator.py\<close>: an abstract
  applicator holding \<^verbatim>\<open>horizons\<close> and \<^verbatim>\<open>feature_names\<close>, and three variants of
  \<^verbatim>\<open>add_features\<close> (training, operational prediction, backtest).

  Modelling decisions.
  \<^item> Python floats that are horizons, latency thresholds and cell values are reals; the
    missing value \<^verbatim>\<open>np.nan\<close> is the separate constructor \<open>NaN\<close>. Only comparisons of
    horizons with thresholds are evaluated, which agree on floats and on reals.
  \<^item> A pandas DataFrame is a list of column names and a list of rows; a row is its index
    label (the timestamp) and its cells by column name. Only the cells of a table's own
    columns mean anything.
  \<^item> Exceptions are values: every function that can raise returns \<open>error + 'a\<close>.
  \<^item> \<^verbatim>\<open>self.horizons\<close> is dynamically typed in the source (\<^verbatim>\<open>__init__\<close> inspects
    its type, the training variant compares it with \<^verbatim>\<open>None\<close>), so it is a \<open>pyvalue\<close>.
  \<^item> \<^verbatim>\<open>apply_features\<close>, \<^verbatim>\<open>add_missing_feature_columns\<close> and
    \<^verbatim>\<open>remove_extra_feature_columns\<close> are imported from modules that are not part of
    the sources at hand; they are parameters of the functions that call them.
\<close>

subsection \<open>Values, errors, tables\<close>

type_synonym timestamp = int

datatype cell = NaN | Val real

datatype error = ValueError string | KeyError string | TypeError string | IndexError string

text \<open>What the caller may pass as \<^verbatim>\<open>horizons\<close>.\<close>

datatype pyvalue = PyNone | PyList "real list" | PyFloat real | PyTuple "real list"

type_synonym row = "timestamp \<times> (string \<Rightarrow> cell)"

record table =
  columns :: "string list"
  rows :: "row list"

text \<open>\<^verbatim>\<open>LATENCY_CONFIG = {"APX": 24}\<close>; a dict is kept as the list of its items, in order.\<close>

type_synonym latency_config = "(string \<times> real) list"

definition LATENCY_CONFIG :: latency_config where
  "LATENCY_CONFIG = [(''APX'', 24)]"

subsection \<open>The Python and pandas operations the source uses\<close>

text \<open>\<^verbatim>\<open>type(v) is not list\<close>\<close>

fun type_is_not_list :: "pyvalue \<Rightarrow> bool" where
  "type_is_not_list (PyList xs) = False"
| "type_is_not_list v = True"

text \<open>Python's truth value of an object, as \<^verbatim>\<open>not v\<close> reads it.\<close>

fun truthy :: "pyvalue \<Rightarrow> bool" where
  "truthy PyNone = False"
| "truthy (PyList xs) = (xs \<noteq> [])"
| "truthy (PyFloat x) = (x \<noteq> 0)"
| "truthy (PyTuple xs) = (xs \<noteq> [])"

text \<open>\<^verbatim>\<open>for horizon in v\<close>: the items, or the TypeError of a value that is not iterable.\<close>

fun py_iter :: "pyvalue \<Rightarrow> error + real list" where
  "py_iter (PyList xs) = Inr xs"
| "py_iter (PyTuple xs) = Inr xs"
| "py_iter PyNone = Inl (TypeError ''NoneType object is not iterable'')"
| "py_iter (PyFloat x) = Inl (TypeError ''float object is not iterable'')"

text \<open>\<^verbatim>\<open>len(v)\<close>\<close>

fun py_len :: "pyvalue \<Rightarrow> error + nat" where
  "py_len (PyList xs) = Inr (length xs)"
| "py_len (PyTuple xs) = Inr (length xs)"
| "py_len PyNone = Inl (TypeError ''object of type NoneType has no len()'')"
| "py_len (PyFloat x) = Inl (TypeError ''object of type float has no len()'')"

text \<open>\<^verbatim>\<open>v[0]\<close>\<close>

fun py_first :: "pyvalue \<Rightarrow> error + real" where
  "py_first (PyList (x # xs)) = Inr x"
| "py_first (PyTuple (x # xs)) = Inr x"
| "py_first (PyList []) = Inl (IndexError ''list index out of range'')"
| "py_first (PyTuple []) = Inl (IndexError ''tuple index out of range'')"
| "py_first PyNone = Inl (TypeError ''NoneType object is not subscriptable'')"
| "py_first (PyFloat x) = Inl (TypeError ''float object is not subscriptable'')"

text \<open>\<^verbatim>\<open>pd.DataFrame()\<close>: no columns, no rows.\<close>

definition DataFrame :: table where
  "DataFrame = \<lparr>columns = [], rows = []\<rparr>"

text \<open>
  \<^verbatim>\<open>df[c] = v\<close> with a scalar \<open>v\<close>: the column is overwritten where it exists and
  added as the last column otherwise; every row gets the value.
\<close>

definition setitem :: "table \<Rightarrow> string \<Rightarrow> cell \<Rightarrow> table" where
  "setitem df c v =
     \<lparr>columns = (if c \<in> set (columns df) then columns df else columns df @ [c]),
      rows = map (\<lambda>(t, r). (t, r(c := v))) (rows df)\<rparr>"

text \<open>A row read through a list of columns: a cell of any other column is missing.\<close>

definition reindex :: "string list \<Rightarrow> row \<Rightarrow> row" where
  "reindex cols = (\<lambda>(t, r). (t, (\<lambda>c. if c \<in> set cols then r c else NaN)))"

text \<open>
  \<^verbatim>\<open>a.append(b)\<close>: the rows of \<open>a\<close> followed by the rows of \<open>b\<close>, index labels kept
  (duplicates included), over the union of the columns; a cell of a column that its own
  table does not have is missing.
\<close>

definition df_append :: "table \<Rightarrow> table \<Rightarrow> table" where
  "df_append a b =
     \<lparr>columns = columns a @ filter (\<lambda>c. c \<notin> set (columns a)) (columns b),
      rows = map (reindex (columns a)) (rows a) @ map (reindex (columns b)) (rows b)\<rparr>"

text \<open>\<^verbatim>\<open>df[c]\<close>: the column as a list of cells, or KeyError.\<close>

definition getitem :: "table \<Rightarrow> string \<Rightarrow> error + cell list" where
  "getitem df c =
     (if c \<in> set (columns df) then Inr (map (\<lambda>(t, r). r c) (rows df)) else Inl (KeyError c))"

text \<open>\<^verbatim>\<open>series > x\<close>: elementwise, and a missing value compares false.\<close>

definition series_gt :: "cell list \<Rightarrow> real \<Rightarrow> bool list" where
  "series_gt s x = map (\<lambda>v. case v of NaN \<Rightarrow> False | Val y \<Rightarrow> y > x) s"

text \<open>
  \<^verbatim>\<open>df.loc[mask, c] = v\<close> with a boolean mask and a scalar. On an existing column the
  masked rows are set. A column that does not exist is added (setting with enlargement):
  missing on the rows outside the mask, \<open>v\<close> on the masked rows; pandas refuses this on a
  frame without rows.
\<close>

definition loc_setitem :: "table \<Rightarrow> bool list \<Rightarrow> string \<Rightarrow> cell \<Rightarrow> error + table" where
  "loc_setitem df bmask c v =
     (if c \<in> set (columns df) then
        Inr (df\<lparr>rows := map (\<lambda>(m, (t, r)). if m then (t, r(c := v)) else (t, r))
                           (zip bmask (rows df))\<rparr>)
      else if rows df = [] then
        Inl (ValueError ''cannot set a frame with no defined index and a scalar'')
      else
        Inr \<lparr>columns = columns df @ [c],
             rows = map (\<lambda>(m, (t, r)). (t, r(c := (if m then v else NaN))))
                        (zip bmask (rows df))\<rparr>)"

text \<open>
  \<^verbatim>\<open>df.sort_index()\<close>: the rows in ascending order of their index label. pandas does not
  fix the order of rows with equal labels; the model keeps their order, and the properties
  proved of \<^verbatim>\<open>add_features\<close> below are stated so that they do not depend on it (sortedness,
  membership, multisets of rows).
\<close>

definition sort_index :: "table \<Rightarrow> table" where
  "sort_index df = df\<lparr>rows := sort_key fst (rows df)\<rparr>"

subsection \<open>AbstractFeatureApplicator\<close>

record applicator =
  horizons :: pyvalue
  feature_names :: "string list option"

text \<open>
  \<^verbatim>\<open>if type(horizons) is not list and not None: raise ValueError(...)\<close>. Python reads
  the condition as \<^verbatim>\<open>(type(horizons) is not list) and (not None)\<close>.
\<close>

definition init :: "pyvalue \<Rightarrow> string list option \<Rightarrow> error + applicator" where
  "init horizons_arg feature_names_arg =
     (if type_is_not_list horizons_arg \<and> \<not> truthy PyNone then
        Inl (ValueError ''Horizons must be added as a list'')
      else Inr \<lparr>horizons = horizons_arg, feature_names = feature_names_arg\<rparr>)"

subsection \<open>The collaborators\<close>

text \<open>
  \<^verbatim>\<open>apply_features(df, feature_names=..., horizon=...)\<close>: table, optional feature-name
  filter and horizon to a table, or an exception.
\<close>

type_synonym apply_features = "table \<Rightarrow> string list option \<Rightarrow> real \<Rightarrow> error + table"

text \<open>
  \<^verbatim>\<open>add_missing_feature_columns(df, feature_names)\<close> and
  \<^verbatim>\<open>remove_extra_feature_columns(df, feature_names)\<close>.
\<close>

type_synonym reconcile = "table \<Rightarrow> string list option \<Rightarrow> error + table"

subsection \<open>TrainFeatureApplicator.add_features\<close>

text \<open>The loop over the horizons, accumulating into \<open>result\<close>.\<close>

fun horizon_loop ::
  "apply_features \<Rightarrow> table \<Rightarrow> string list option \<Rightarrow> real list \<Rightarrow> table \<Rightarrow> error + table" where
  "horizon_loop af df fnames [] result = Inr result"
| "horizon_loop af df fnames (horizon # hs) result =
     (case af df fnames horizon of
        Inl e \<Rightarrow> Inl e
      | Inr res \<Rightarrow> horizon_loop af df fnames hs
                    (df_append result (setitem res ''Horizon'' (Val horizon))))"

text \<open>The loop over the items of the latency config.\<close>

fun latency_loop :: "latency_config \<Rightarrow> table \<Rightarrow> error + table" where
  "latency_loop [] result = Inr result"
| "latency_loop ((feature, time) # lc) result =
     (case getitem result ''Horizon'' of
        Inl e \<Rightarrow> Inl e
      | Inr hcol \<Rightarrow>
          (case loc_setitem result (series_gt hcol time) feature NaN of
             Inl e \<Rightarrow> Inl e
           | Inr result' \<Rightarrow> latency_loop lc result'))"

text \<open>
  The method returns the applicator as it leaves it (the default horizons are stored on
  \<^verbatim>\<open>self\<close> before anything else can fail) and the table or the exception.
\<close>

definition train_add_features ::
  "apply_features \<Rightarrow> applicator \<Rightarrow> table \<Rightarrow> latency_config \<Rightarrow> applicator \<times> (error + table)" where
  "train_add_features af self df lc =
     (let self' = (if horizons self = PyNone then self\<lparr>horizons := PyList [0.25, 24]\<rparr>
                   else self)
      in (self',
          case py_iter (horizons self') of
            Inl e \<Rightarrow> Inl e
          | Inr hs \<Rightarrow>
              (case horizon_loop af df (feature_names self') hs DataFrame of
                 Inl e \<Rightarrow> Inl e
               | Inr result \<Rightarrow>
                   (case latency_loop lc result of
                      Inl e \<Rightarrow> Inl e
                    | Inr result' \<Rightarrow> Inr (sort_index result')))))"

subsection \<open>OperationalPredictFeatureApplicator.add_features and BackTestPredictFeatureApplicator.add_features\<close>

text \<open>
  The message is the literal of the source, which is not an f-string:
  \<^verbatim>\<open>raise ValueError("Expected one horizon, got {num_horizons}")\<close>.
\<close>

definition reconcile_columns ::
  "reconcile \<Rightarrow> reconcile \<Rightarrow> string list option \<Rightarrow> table \<Rightarrow> error + table" where
  "reconcile_columns add_missing remove_extra fnames df =
     (case add_missing df fnames of
        Inl e \<Rightarrow> Inl e
      | Inr df' \<Rightarrow> remove_extra df' fnames)"

definition operational_add_features ::
  "apply_features \<Rightarrow> reconcile \<Rightarrow> reconcile \<Rightarrow> applicator \<Rightarrow> table \<Rightarrow> error + table" where
  "operational_add_features af add_missing remove_extra self df =
     (case py_len (horizons self) of
        Inl e \<Rightarrow> Inl e
      | Inr num_horizons \<Rightarrow>
          if num_horizons \<noteq> 1 then Inl (ValueError ''Expected one horizon, got {num_horizons}'')
          else (case py_first (horizons self) of
                  Inl e \<Rightarrow> Inl e
                | Inr h \<Rightarrow>
                    (case af df (feature_names self) h of
                       Inl e \<Rightarrow> Inl e
                     | Inr df' \<Rightarrow>
                         reconcile_columns add_missing remove_extra (feature_names self) df')))"

text \<open>
  The backtest variant calls \<^verbatim>\<open>apply_features(df, horizon=self.horizons[0])\<close>: the
  \<^verbatim>\<open>feature_names\<close> argument is left out, which is \<open>None\<close> here.
\<close>

definition backtest_add_features ::
  "apply_features \<Rightarrow> reconcile \<Rightarrow> reconcile \<Rightarrow> applicator \<Rightarrow> table \<Rightarrow> error + table" where
  "backtest_add_features af add_missing remove_extra self df =
     (case py_len (horizons self) of
        Inl e \<Rightarrow> Inl e
      | Inr num_horizons \<Rightarrow>
          if num_horizons \<noteq> 1 then Inl (ValueError ''Expected one horizon, got {num_horizons}'')
          else (case py_first (horizons self) of
                  Inl e \<Rightarrow> Inl e
                | Inr h \<Rightarrow>
                    (case af df None h of
                       Inl e \<Rightarrow> Inl e
                     | Inr df' \<Rightarrow>
                         reconcile_columns add_missing remove_extra (feature_names self) df')))"

subsection \<open>Reading tables\<close>

text \<open>The row index, one column with its index labels, and a column beside the horizon tag.\<close>

definition df_index :: "table \<Rightarrow> timestamp list" where
  "df_index df = map fst (rows df)"

definition column_view :: "string \<Rightarrow> table \<Rightarrow> (timestamp \<times> cell) list" where
  "column_view c df = map (\<lambda>(t, r). (t, r c)) (rows df)"

definition tagged_rows :: "string \<Rightarrow> table \<Rightarrow> (timestamp \<times> cell \<times> cell) list" where
  "tagged_rows c df = map (\<lambda>(t, r). (t, r ''Horizon'', r c)) (rows df)"

definition result_rows :: "string \<Rightarrow> error + table \<Rightarrow> (timestamp \<times> cell \<times> cell) list" where
  "result_rows c res = (case res of Inl e \<Rightarrow> [] | Inr df \<Rightarrow> tagged_rows c df)"

text \<open>The columns, and one column, of what a call returned (nothing after an exception).\<close>

definition result_columns :: "error + table \<Rightarrow> string list" where
  "result_columns res = (case res of Inl e \<Rightarrow> [] | Inr df \<Rightarrow> columns df)"

definition result_column :: "string \<Rightarrow> error + table \<Rightarrow> (timestamp \<times> cell) list" where
  "result_column c res = (case res of Inl e \<Rightarrow> [] | Inr df \<Rightarrow> column_view c df)"

text \<open>
  One block per horizon, in the order of the horizons: every index label of \<open>idx\<close> tagged
  with the horizon.
\<close>

definition horizon_blocks :: "real list \<Rightarrow> timestamp list \<Rightarrow> (timestamp \<times> cell) list" where
  "horizon_blocks hs idx = concat (map (\<lambda>h. map (\<lambda>t. (t, Val h)) idx) hs)"

text \<open>
  Relations between a row before and after the latency loop: the later row has the same
  index label and each cell is the old one or missing; and a row meets the latency item
  \<open>(f, T)\<close> when its cell \<open>f\<close> is missing if its horizon exceeds \<open>T\<close>.
\<close>

definition nulled_from :: "row \<Rightarrow> row \<Rightarrow> bool" where
  "nulled_from old new \<longleftrightarrow>
     fst new = fst old \<and> (\<forall>c. snd new c = snd old c \<or> snd new c = NaN)"

definition invalidated :: "real \<Rightarrow> string \<Rightarrow> row \<Rightarrow> bool" where
  "invalidated T f x \<longleftrightarrow> (\<forall>h. snd x ''Horizon'' = Val h \<longrightarrow> h > T \<longrightarrow> snd x f = NaN)"

definition gt_mask :: "real \<Rightarrow> row \<Rightarrow> bool" where
  "gt_mask T x = (case snd x ''Horizon'' of NaN \<Rightarrow> False | Val y \<Rightarrow> y > T)"

subsection \<open>The contracts of the reconciliation collaborators\<close>

text \<open>
  Modelled from the spec: \<^verbatim>\<open>add_missing_feature_columns\<close> and
  \<^verbatim>\<open>remove_extra_feature_columns\<close> live in \<^verbatim>\<open>openstf.feature_engineering.general\<close>,
  which is not among the sources. The spec gives their contracts: the first "adds absent
  requested columns, missing-valued", the second "drops columns not requested". The
  predicates below state these contracts for a supplied list of names: the call returns a
  table, with the stated set of columns, the index labels and the cells of the kept
  columns unchanged.
\<close>

definition kept_cells :: "string set \<Rightarrow> row \<Rightarrow> row \<Rightarrow> bool" where
  "kept_cells cs old new \<longleftrightarrow> fst new = fst old \<and> (\<forall>c\<in>cs. snd new c = snd old c)"

definition missing_cells :: "string set \<Rightarrow> row \<Rightarrow> bool" where
  "missing_cells cs x \<longleftrightarrow> (\<forall>c\<in>cs. snd x c = NaN)"

definition adds_missing_columns :: "reconcile \<Rightarrow> bool" where
  "adds_missing_columns am \<longleftrightarrow>
     (\<forall>df fnames. \<exists>df'. am df (Some fnames) = Inr df'
         \<and> set (columns df') = set (columns df) \<union> set fnames
         \<and> list_all2 (\<lambda>old new. kept_cells (set (columns df)) old new
                        \<and> missing_cells (set fnames - set (columns df)) new)
              (rows df) (rows df'))"

definition removes_extra_columns :: "reconcile \<Rightarrow> bool" where
  "removes_extra_columns re \<longleftrightarrow>
     (\<forall>df fnames. \<exists>df'. re df (Some fnames) = Inr df'
         \<and> set (columns df') = set (columns df) \<inter> set fnames
         \<and> list_all2 (kept_cells (set (columns df) \<inter> set fnames)) (rows df) (rows df'))"

text \<open>
  Modelled from the spec: one implementation of \<^verbatim>\<open>add_missing_feature_columns\<close>, which
  is not among the sources, after the words "adds absent requested columns,
  missing-valued": the requested names that are not columns yet are added after the
  existing columns, and their cells are missing.
\<close>

definition add_missing_feature_columns :: "table \<Rightarrow> string list \<Rightarrow> table" where
  "add_missing_feature_columns df fnames =
     \<lparr>columns = columns df @ filter (\<lambda>c. c \<notin> set (columns df)) (remdups fnames),
      rows = map (reindex (columns df)) (rows df)\<rparr>"

text \<open>
  Modelled from the spec: one implementation of \<^verbatim>\<open>remove_extra_feature_columns\<close>,
  which is not among the sources, after the words "drops columns not requested".
\<close>

definition remove_extra_feature_columns :: "table \<Rightarrow> string list \<Rightarrow> table" where
  "remove_extra_feature_columns df fnames =
     \<lparr>columns = filter (\<lambda>c. c \<in> set fnames) (columns df),
      rows = map (reindex (filter (\<lambda>c. c \<in> set fnames) (columns df))) (rows df)\<rparr>"

text \<open>The two implementations as collaborators; an absent list requests nothing.\<close>

definition add_missing_model :: reconcile where
  "add_missing_model df fnames =
     Inr (add_missing_feature_columns df (case fnames of None \<Rightarrow> [] | Some fs \<Rightarrow> fs))"

definition remove_extra_model :: reconcile where
  "remove_extra_model df fnames =
     Inr (remove_extra_feature_columns df (case fnames of None \<Rightarrow> [] | Some fs \<Rightarrow> fs))"

subsection \<open>Example inputs\<close>

text \<open>
  A table of ten quarter-hours with a load and an APX price, a shorter one, and two
  feature computations: one that adds nothing, and one that adds \<^verbatim>\<open>T-720min\<close> only for
  horizons of at most twelve hours and \<^verbatim>\<open>T-7d\<close> always, each only if the filter asks
  for it or is absent.
\<close>

definition example_row :: "int \<Rightarrow> row" where
  "example_row i =
     (i, (\<lambda>c. NaN)(''load'' := Val (real_of_int i), ''APX'' := Val (real_of_int (100 + i))))"

definition example_table :: table where
  "example_table =
     \<lparr>columns = [''load'', ''APX''], rows = map example_row [0, 1, 2, 3, 4, 5, 6, 7, 8, 9]\<rparr>"

definition small_table :: table where
  "small_table = \<lparr>columns = [''load'', ''APX''], rows = map example_row [0, 1]\<rparr>"

definition passthrough_features :: apply_features where
  "passthrough_features df fnames horizon = Inr df"

definition example_features :: apply_features where
  "example_features df fnames horizon =
     (let wanted = (\<lambda>c. case fnames of None \<Rightarrow> True | Some fs \<Rightarrow> c \<in> set fs);
          df1 = (if horizon \<le> 12 \<and> wanted ''T-720min'' then setitem df ''T-720min'' (Val 1)
                 else df);
          df2 = (if wanted ''T-7d'' then setitem df1 ''T-7d'' (Val 2) else df1)
      in Inr df2)"

text \<open>
  A table of one row at timestamp 0 with the single column \<open>f\<close> holding \<open>v\<close>, and a
  feature computation whose default feature set is \<^verbatim>\<open>T-7d\<close> and that computes
  \<^verbatim>\<open>T-14d\<close> only when the filter asks for it.
\<close>

definition single_row_table :: "string \<Rightarrow> real \<Rightarrow> table" where
  "single_row_table f v = \<lparr>columns = [f], rows = [(0, (\<lambda>c. NaN)(f := Val v))]\<rparr>"

definition requested_only_features :: apply_features where
  "requested_only_features df fnames horizon =
     Inr (case fnames of
            None \<Rightarrow> setitem df ''T-7d'' (Val 2)
          | Some fs \<Rightarrow> (if ''T-14d'' \<in> set fs then setitem df ''T-14d'' (Val 3) else df))"

text \<open>
  What the scenarios assume of the feature computation for one horizon: it returns a table
  that has the column, with the index labels and the cells of the input.
\<close>

definition keeps_column :: "apply_features \<Rightarrow> table \<Rightarrow> string list option \<Rightarrow> real \<Rightarrow> string \<Rightarrow> bool" where
  "keeps_column af df fnames h c \<longleftrightarrow>
     (\<exists>res. af df fnames h = Inr res \<and> c \<in> set (columns res)
          \<and> column_view c res = column_view c df)"

section \<open>Properties\<close>

subsection \<open>Auxiliary facts\<close>

lemma nulled_from_refl: "nulled_from x x" by (simp add: nulled_from_def)

lemma nulled_from_trans: "nulled_from x y \<Longrightarrow> nulled_from y z \<Longrightarrow> nulled_from x z"
  unfolding nulled_from_def by metis

lemma map_zip_map: "map g (zip (map f xs) xs) = map (\<lambda>x. g (f x, x)) xs"
  by (induction xs) auto

lemma series_gt_rows:
  "series_gt (map (\<lambda>(t, r). r ''Horizon'') xs) T = map (gt_mask T) xs"
  by (auto simp: series_gt_def gt_mask_def split: prod.splits)

lemma loc_setitem_step:
  assumes "getitem tbl ''Horizon'' = Inr hcol"
    and "loc_setitem tbl (series_gt hcol T) f NaN = Inr tbl'"
  shows "list_all2 (\<lambda>old new. nulled_from old new \<and> invalidated T f new) (rows tbl) (rows tbl')"
proof -
  from assms(1) have H: "''Horizon'' \<in> set (columns tbl)"
    and hcol: "hcol = map (\<lambda>(t, r). r ''Horizon'') (rows tbl)"
    by (auto simp: getitem_def split: if_splits)
  show ?thesis
  proof (cases "f \<in> set (columns tbl)")
    case True
    with assms(2) have "rows tbl' = map (\<lambda>x. (\<lambda>(m, (t, r)). if m then (t, r(f := NaN)) else (t, r)) (gt_mask T x, x)) (rows tbl)"
      by (auto simp: loc_setitem_def hcol series_gt_rows map_zip_map)
    then show ?thesis
      by (auto simp: list_all2_map2 nulled_from_def invalidated_def gt_mask_def
          intro!: list.rel_refl_strong split: cell.splits)
  next
    case False
    with H have ne: "f \<noteq> ''Horizon''" by auto
    from False assms(2) have "rows tbl' = map (\<lambda>x. (\<lambda>(m, (t, r)). (t, r(f := (if m then NaN else NaN)))) (gt_mask T x, x)) (rows tbl)"
      by (auto simp: loc_setitem_def hcol series_gt_rows map_zip_map split: if_splits)
    then show ?thesis
      by (auto simp: list_all2_map2 nulled_from_def invalidated_def gt_mask_def
          intro!: list.rel_refl_strong split: cell.splits)
  qed
qed

lemma list_all2_right_elem:
  "list_all2 P xs ys \<Longrightarrow> y \<in> set ys \<Longrightarrow> \<exists>x\<in>set xs. P x y"
  by (induction rule: list_all2_induct) auto

lemma list_all2_right_all:
  "list_all2 (\<lambda>x y. P x y \<and> Q y) xs ys \<Longrightarrow> y \<in> set ys \<Longrightarrow> Q y"
  by (induction rule: list_all2_induct) auto

lemma list_all2_nulled_trans:
  "list_all2 nulled_from xs ys \<Longrightarrow> list_all2 nulled_from ys zs \<Longrightarrow> list_all2 nulled_from xs zs"
  by (rule list_all2_trans[where ?P1.0=nulled_from and ?P2.0=nulled_from]) (auto intro: nulled_from_trans)

lemma latency_loop_nulled:
  "latency_loop lc tbl = Inr out \<Longrightarrow> list_all2 nulled_from (rows tbl) (rows out)"
proof (induction lc arbitrary: tbl)
  case Nil
  then show ?case by (simp add: list.rel_refl nulled_from_refl)
next
  case (Cons p lc)
  obtain f T where p: "p = (f, T)" by (cases p)
  from Cons.prems p obtain hcol tbl' where
    g: "getitem tbl ''Horizon'' = Inr hcol"
    and l: "loc_setitem tbl (series_gt hcol T) f NaN = Inr tbl'"
    and r: "latency_loop lc tbl' = Inr out"
    by (auto split: sum.splits)
  from loc_setitem_step[OF g l] have "list_all2 nulled_from (rows tbl) (rows tbl')"
    by (rule list_all2_mono) simp
  with Cons.IH[OF r] show ?case by (blast intro: list_all2_nulled_trans)
qed

lemma latency_loop_invalidated:
  "latency_loop lc tbl = Inr out \<Longrightarrow> (f, T) \<in> set lc \<Longrightarrow> x \<in> set (rows out) \<Longrightarrow> invalidated T f x"
proof (induction lc arbitrary: tbl)
  case Nil
  then show ?case by simp
next
  case (Cons p lc)
  obtain f' T' where p: "p = (f', T')" by (cases p)
  from Cons.prems(1) p obtain hcol tbl' where
    g: "getitem tbl ''Horizon'' = Inr hcol"
    and l: "loc_setitem tbl (series_gt hcol T') f' NaN = Inr tbl'"
    and r: "latency_loop lc tbl' = Inr out"
    by (auto split: sum.splits)
  show ?case
  proof (cases "(f, T) \<in> set lc")
    case True
    from Cons.IH[OF r True Cons.prems(3)] show ?thesis .
  next
    case False
    with Cons.prems(2) p have eq: "f' = f" "T' = T" by auto
    from list_all2_right_elem[OF latency_loop_nulled[OF r] Cons.prems(3)]
    obtain y where y: "y \<in> set (rows tbl')" and n: "nulled_from y x"
      by blast
    from list_all2_right_all[OF loc_setitem_step[OF g l] y] have "invalidated T f y"
      unfolding eq .
    with n show ?thesis
      unfolding invalidated_def nulled_from_def by (metis cell.distinct(1))
  qed
qed

lemma rows_sort_index: "set (rows (sort_index t)) = set (rows t)"
  by (simp add: sort_index_def)

lemma train_result_cases:
  assumes "snd (train_add_features af self df lc) = Inr out"
  obtains hs acc result' where
    "py_iter (if horizons self = PyNone then PyList [0.25, 24] else horizons self) = Inr hs"
    "horizon_loop af df (feature_names self) hs DataFrame = Inr acc"
    "latency_loop lc acc = Inr result'"
    "out = sort_index result'"
  using assms
  by (auto simp: train_add_features_def Let_def split: sum.splits if_splits)

lemma init_result:
  "init v fn = (case v of PyList xs \<Rightarrow> Inr \<lparr>horizons = v, feature_names = fn\<rparr>
                | _ \<Rightarrow> Inl (ValueError ''Horizons must be added as a list''))"
  by (cases v) (simp_all add: init_def)

lemma small_eval:
  "result_rows ''APX'' (snd (train_add_features passthrough_features
       \<lparr>horizons = PyList [0.25, 48], feature_names = None\<rparr> small_table LATENCY_CONFIG))
   = [(0, Val 0.25, Val 100), (0, Val 48, NaN), (1, Val 0.25, Val 101), (1, Val 48, NaN)]"
  by (simp add: train_add_features_def passthrough_features_def small_table_def
      LATENCY_CONFIG_def DataFrame_def df_append_def setitem_def reindex_def getitem_def
      series_gt_def loc_setitem_def sort_index_def result_rows_def tagged_rows_def
      example_row_def)

subsection \<open>The constructor\<close>

text \<open>
  C3. The claim is that the constructor raises exactly when \<^verbatim>\<open>horizons\<close> is neither a list
  nor \<^verbatim>\<open>None\<close>. The condition of the source ends in \<^verbatim>\<open>and not None\<close>, which is always
  true, so the constructor raises for every value that is not a list: constructing with
  \<^verbatim>\<open>horizons=None\<close> raises the ValueError.
\<close>

theorem init_rejects_None:
  "init PyNone None = Inl (ValueError ''Horizons must be added as a list'')"
  by (simp add: init_def)

subsection \<open>The horizon count of the single-horizon variants\<close>

text \<open>
  C4. The claim is that the operational and the backtest variant raise a configuration
  error for a horizon list of length 0 or at least 2, with a message that includes the
  count. Both raise, but the message is the same literal text for the lengths 0 and 2:
  the placeholder \<^verbatim>\<open>{num_horizons}\<close> is never filled in.
\<close>

theorem horizon_count_message_literal:
  "operational_add_features af am re \<lparr>horizons = PyList [], feature_names = fn\<rparr> df
     = Inl (ValueError ''Expected one horizon, got {num_horizons}'')
   \<and> operational_add_features af am re \<lparr>horizons = PyList [0.25, 24], feature_names = fn\<rparr> df
     = Inl (ValueError ''Expected one horizon, got {num_horizons}'')
   \<and> backtest_add_features af am re \<lparr>horizons = PyList [], feature_names = fn\<rparr> df
     = Inl (ValueError ''Expected one horizon, got {num_horizons}'')
   \<and> backtest_add_features af am re \<lparr>horizons = PyList [0.25, 24], feature_names = fn\<rparr> df
     = Inl (ValueError ''Expected one horizon, got {num_horizons}'')"
  by (simp add: operational_add_features_def backtest_add_features_def)

subsection \<open>The training variant\<close>

text \<open>
  C10. With an empty list of horizons and a latency config that is not empty, the training
  variant does not return a table: reading the column \<^verbatim>\<open>Horizon\<close> of the empty
  accumulated frame raises a KeyError.
\<close>

theorem train_empty_horizons_fails:
  "horizons self = PyList [] \<Longrightarrow> lc \<noteq> [] \<Longrightarrow>
     snd (train_add_features af self df lc) = Inl (KeyError ''Horizon'')"
  by (cases lc) (auto simp: train_add_features_def DataFrame_def getitem_def)

theorem train_empty_horizons_fails_witness:
  "horizons \<lparr>horizons = PyList [], feature_names = None\<rparr> = PyList [] \<and> LATENCY_CONFIG \<noteq> []
   \<and> snd (train_add_features passthrough_features \<lparr>horizons = PyList [], feature_names = None\<rparr>
            example_table LATENCY_CONFIG) = Inl (KeyError ''Horizon'')"
  using train_empty_horizons_fails
    [of "\<lparr>horizons = PyList [], feature_names = None\<rparr>" LATENCY_CONFIG passthrough_features example_table]
  by (simp add: LATENCY_CONFIG_def)

text \<open>
  C5. When the horizons of the training applicator are \<^verbatim>\<open>None\<close>, the call stores the list
  \<^verbatim>\<open>[0.25, 24]\<close> on the applicator, computes what an applicator configured with that
  list computes, and a later call (with any collaborator, table and latency config) finds
  and keeps the stored list.
\<close>

theorem train_default_horizons:
  "horizons self = PyNone \<Longrightarrow>
     fst (train_add_features af self df lc) = self\<lparr>horizons := PyList [0.25, 24]\<rparr>
   \<and> snd (train_add_features af self df lc)
       = snd (train_add_features af (self\<lparr>horizons := PyList [0.25, 24]\<rparr>) df lc)
   \<and> fst (train_add_features af' (fst (train_add_features af self df lc)) df' lc')
       = self\<lparr>horizons := PyList [0.25, 24]\<rparr>"
  by (simp add: train_add_features_def Let_def)

theorem train_default_horizons_witness:
  "horizons \<lparr>horizons = PyNone, feature_names = None\<rparr> = PyNone
   \<and> fst (train_add_features passthrough_features \<lparr>horizons = PyNone, feature_names = None\<rparr>
            small_table LATENCY_CONFIG) = \<lparr>horizons = PyList [0.25, 24], feature_names = None\<rparr>
   \<and> fst (train_add_features passthrough_features
            (fst (train_add_features passthrough_features
                    \<lparr>horizons = PyNone, feature_names = None\<rparr> small_table LATENCY_CONFIG))
            small_table LATENCY_CONFIG) = \<lparr>horizons = PyList [0.25, 24], feature_names = None\<rparr>"
  using train_default_horizons
    [of "\<lparr>horizons = PyNone, feature_names = None\<rparr>" passthrough_features small_table
        LATENCY_CONFIG passthrough_features small_table LATENCY_CONFIG]
  by (simp add: train_add_features_def Let_def)

text \<open>
  C7. Whatever the collaborator returns and in whatever order the blocks of the horizons
  were accumulated, the index of a table returned by the training variant is ascending.
\<close>

theorem train_output_sorted:
  "snd (train_add_features af self df lc) = Inr out \<Longrightarrow> sorted (df_index out)"
  by (auto simp: train_add_features_def Let_def sort_index_def df_index_def
      split: sum.splits)

theorem train_output_sorted_witness:
  "\<exists>out. snd (train_add_features passthrough_features
             \<lparr>horizons = PyList [0.25, 48], feature_names = None\<rparr> small_table LATENCY_CONFIG) = Inr out
     \<and> df_index out = [0, 0, 1, 1] \<and> sorted (df_index out)"
proof -
  let ?res = "snd (train_add_features passthrough_features
             \<lparr>horizons = PyList [0.25, 48], feature_names = None\<rparr> small_table LATENCY_CONFIG)"
  have "\<exists>out. ?res = Inr out"
    by (simp add: train_add_features_def passthrough_features_def small_table_def
      LATENCY_CONFIG_def DataFrame_def df_append_def setitem_def getitem_def
      loc_setitem_def)
  then obtain out where out: "?res = Inr out" ..
  from small_eval out have "map fst (tagged_rows ''APX'' out) = [0, 0, 1, 1]"
    by (simp add: result_rows_def)
  then have idx: "df_index out = [0, 0, 1, 1]"
    by (simp add: tagged_rows_def df_index_def comp_def case_prod_unfold)
  from out idx train_output_sorted[OF out] show ?thesis by blast
qed

lemma boundary_run:
  assumes "h \<le> T"
  shows "result_rows feature (snd (train_add_features passthrough_features
             \<lparr>horizons = PyList [h], feature_names = None\<rparr> (single_row_table feature h)
             [(feature, T)])) = [(0, Val h, Val h)]"
  using assms
  by (auto simp: train_add_features_def passthrough_features_def single_row_table_def
      DataFrame_def df_append_def setitem_def reindex_def getitem_def
      series_gt_def loc_setitem_def sort_index_def result_rows_def tagged_rows_def)

text \<open>
  C1. In a table returned by the training variant, for every item (feature, T) of the
  latency config, the feature is missing on every row whose \<^verbatim>\<open>Horizon\<close> is strictly
  greater than T. It need not be missing where the horizon is at most T: for every
  feature, every threshold T and every horizon up to and including T there is a run in
  which a row tagged with that horizon carries a value of the feature.
\<close>

theorem train_latency_invalidation:
  "(\<forall>af self df lc out. snd (train_add_features af self df lc) = Inr out \<longrightarrow>
      (\<forall>(feature, T)\<in>set lc. \<forall>(t, r)\<in>set (rows out). \<forall>h.
          r ''Horizon'' = Val h \<and> h > T \<longrightarrow> r feature = NaN))
   \<and> (\<forall>feature T h. h \<le> T \<longrightarrow>
         (\<exists>af self df t v.
            (t, Val h, Val v) \<in> set (result_rows feature
               (snd (train_add_features af self df [(feature, T)])))))"
proof (rule conjI)
  show "\<forall>af self df lc out. snd (train_add_features af self df lc) = Inr out \<longrightarrow>
      (\<forall>(feature, T)\<in>set lc. \<forall>(t, r)\<in>set (rows out). \<forall>h.
          r ''Horizon'' = Val h \<and> h > T \<longrightarrow> r feature = NaN)"
  proof (intro allI impI)
    fix af self df lc out
    assume res: "snd (train_add_features af self df lc) = Inr out"
    from res obtain hs acc result' where
      l: "latency_loop lc acc = Inr result'" and out: "out = sort_index result'"
      by (rule train_result_cases)
    show "\<forall>(feature, T)\<in>set lc. \<forall>(t, r)\<in>set (rows out). \<forall>h.
          r ''Horizon'' = Val h \<and> h > T \<longrightarrow> r feature = NaN"
    proof (clarify)
      fix feature T t r h
      assume "(feature, T) \<in> set lc" "(t, r) \<in> set (rows out)"
        "r ''Horizon'' = Val h" "h > T"
      with latency_loop_invalidated[OF l, of feature T "(t, r)"] out
      show "r feature = NaN"
        by (simp add: rows_sort_index invalidated_def)
    qed
  qed
next
  show "\<forall>feature T h. h \<le> T \<longrightarrow>
         (\<exists>af self df t v.
            (t, Val h, Val v) \<in> set (result_rows feature
               (snd (train_add_features af self df [(feature, T)]))))"
  proof (intro allI impI)
    fix feature :: string and T h :: real
    assume "h \<le> T"
    from boundary_run[OF this, of feature]
    have "(0, Val h, Val h) \<in> set (result_rows feature
               (snd (train_add_features passthrough_features
                  \<lparr>horizons = PyList [h], feature_names = None\<rparr> (single_row_table feature h)
                  [(feature, T)])))"
      by simp
    then show "\<exists>af self df t v.
            (t, Val h, Val v) \<in> set (result_rows feature
               (snd (train_add_features af self df [(feature, T)])))"
      by blast
  qed
qed

theorem train_latency_invalidation_witness:
  "\<exists>out. snd (train_add_features passthrough_features
             \<lparr>horizons = PyList [0.25, 48], feature_names = None\<rparr> small_table LATENCY_CONFIG) = Inr out
     \<and> (''APX'', 24) \<in> set LATENCY_CONFIG
     \<and> (0, Val 48, NaN) \<in> set (tagged_rows ''APX'' out)
     \<and> (\<forall>(t, r)\<in>set (rows out). \<forall>h. r ''Horizon'' = Val h \<and> h > 24 \<longrightarrow> r ''APX'' = NaN)
     \<and> (24::real) \<le> 24
     \<and> (\<exists>af self df t v.
            (t, Val 24, Val v) \<in> set (result_rows ''APX''
               (snd (train_add_features af self df [(''APX'', 24)]))))"
proof -
  let ?res = "snd (train_add_features passthrough_features
             \<lparr>horizons = PyList [0.25, 48], feature_names = None\<rparr> small_table LATENCY_CONFIG)"
  have "\<exists>out. ?res = Inr out"
    by (simp add: train_add_features_def passthrough_features_def small_table_def
      LATENCY_CONFIG_def DataFrame_def df_append_def setitem_def getitem_def
      loc_setitem_def)
  then obtain out where out: "?res = Inr out" ..
  have mem: "(''APX'', 24) \<in> set LATENCY_CONFIG" by (simp add: LATENCY_CONFIG_def)
  from small_eval out have tagged: "(0, Val 48, NaN) \<in> set (tagged_rows ''APX'' out)"
    by (simp add: result_rows_def)
  from train_latency_invalidation out mem
  have a: "\<forall>(t, r)\<in>set (rows out). \<forall>h. r ''Horizon'' = Val h \<and> h > 24 \<longrightarrow> r ''APX'' = NaN"
    by blast
  have le: "(24::real) \<le> 24" by simp
  from train_latency_invalidation le
  have b: "\<exists>af self df t v.
            (t, Val 24, Val v) \<in> set (result_rows ''APX''
               (snd (train_add_features af self df [(''APX'', 24)])))"
    by blast
  from out mem tagged a le b show ?thesis by blast
qed

subsection \<open>The accumulated table, column by column\<close>

lemma df_index_append: "df_index (df_append a b) = df_index a @ df_index b"
  by (simp add: df_index_def df_append_def reindex_def comp_def case_prod_unfold)

lemma df_index_setitem: "df_index (setitem r c v) = df_index r"
  by (simp add: df_index_def setitem_def comp_def case_prod_unfold)

lemma column_view_setitem: "column_view c (setitem r c v) = map (\<lambda>t. (t, v)) (df_index r)"
  by (simp add: column_view_def setitem_def df_index_def comp_def case_prod_unfold)

lemma columns_setitem: "c \<in> set (columns (setitem r c v))"
  by (simp add: setitem_def)

lemma columns_append: "set (columns (df_append a b)) = set (columns a) \<union> set (columns b)"
  by (auto simp: df_append_def)

lemma column_view_reindex:
  "c \<in> set cols \<Longrightarrow> map (\<lambda>(t, r). (t, r c)) (map (reindex cols) xs) = map (\<lambda>(t, r). (t, r c)) xs"
  by (simp add: reindex_def comp_def case_prod_unfold)

lemma column_view_append:
  assumes "rows a = [] \<or> c \<in> set (columns a)" and "c \<in> set (columns b)"
  shows "column_view c (df_append a b) = column_view c a @ column_view c b"
  using assms by (auto simp: column_view_def df_append_def reindex_def)

lemma horizon_loop_index:
  assumes "\<forall>h\<in>set hs. \<forall>res. af df fn h = Inr res \<longrightarrow> df_index res = idx"
    and "horizon_loop af df fn hs acc = Inr out"
  shows "df_index out = df_index acc @ concat (map (\<lambda>h. idx) hs)"
  using assms
proof (induction hs arbitrary: acc)
  case Nil
  then show ?case by simp
next
  case (Cons h hs)
  from Cons.prems(2) obtain res where res: "af df fn h = Inr res"
    and rest: "horizon_loop af df fn hs (df_append acc (setitem res ''Horizon'' (Val h))) = Inr out"
    by (auto split: sum.splits)
  from Cons.prems(1) res have idx: "df_index res = idx" by simp
  from Cons.prems(1) have "\<forall>h\<in>set hs. \<forall>res. af df fn h = Inr res \<longrightarrow> df_index res = idx" by simp
  from Cons.IH[OF this rest] idx show ?case
    by (simp add: df_index_append df_index_setitem)
qed

lemma horizon_loop_tags:
  assumes "\<forall>h\<in>set hs. \<forall>res. af df fn h = Inr res \<longrightarrow> df_index res = idx"
    and "horizon_loop af df fn hs acc = Inr out"
    and "rows acc = [] \<or> ''Horizon'' \<in> set (columns acc)"
  shows "column_view ''Horizon'' out = column_view ''Horizon'' acc @ horizon_blocks hs idx"
  using assms
proof (induction hs arbitrary: acc)
  case Nil
  then show ?case by (simp add: horizon_blocks_def)
next
  case (Cons h hs)
  let ?acc = "df_append acc (setitem res ''Horizon'' (Val h))"
  from Cons.prems(2) obtain res where res: "af df fn h = Inr res"
    and rest: "horizon_loop af df fn hs (df_append acc (setitem res ''Horizon'' (Val h))) = Inr out"
    by (auto split: sum.splits)
  from Cons.prems(1) res have idx: "df_index res = idx" by simp
  from Cons.prems(1) have all: "\<forall>h\<in>set hs. \<forall>res. af df fn h = Inr res \<longrightarrow> df_index res = idx" by simp
  have col: "''Horizon'' \<in> set (columns (df_append acc (setitem res ''Horizon'' (Val h))))"
    by (simp add: columns_append columns_setitem)
  have "column_view ''Horizon'' (df_append acc (setitem res ''Horizon'' (Val h)))
          = column_view ''Horizon'' acc @ map (\<lambda>t. (t, Val h)) idx"
    using Cons.prems(3) idx
    by (simp add: column_view_append columns_setitem column_view_setitem)
  with Cons.IH[OF all rest] col show ?case
    by (simp add: horizon_blocks_def)
qed

lemma nulled_from_index:
  "list_all2 nulled_from xs ys \<Longrightarrow> map fst ys = map fst xs"
  by (induction rule: list_all2_induct) (auto simp: nulled_from_def)

lemma view_masked_set:
  "length bm = length xs \<Longrightarrow> c \<noteq> f \<Longrightarrow>
     map (\<lambda>(t, r). (t, r c)) (map (\<lambda>(m, (t, r)). if m then (t, r(f := v)) else (t, r)) (zip bm xs))
       = map (\<lambda>(t, r). (t, r c)) xs"
  by (induction bm xs rule: list_induct2) auto

lemma view_masked_enlarge:
  "length bm = length xs \<Longrightarrow> c \<noteq> f \<Longrightarrow>
     map (\<lambda>(t, r). (t, r c)) (map (\<lambda>(m, (t, r)). (t, r(f := (if m then v else NaN)))) (zip bm xs))
       = map (\<lambda>(t, r). (t, r c)) xs"
  by (induction bm xs rule: list_induct2) auto

lemma loc_setitem_other_column:
  assumes "loc_setitem tbl bm f v = Inr tbl'" and "c \<noteq> f" and "length bm = length (rows tbl)"
  shows "column_view c tbl' = column_view c tbl"
proof (cases "f \<in> set (columns tbl)")
  case True
  with assms(1) have "rows tbl' = map (\<lambda>(m, (t, r)). if m then (t, r(f := v)) else (t, r))
                           (zip bm (rows tbl))"
    by (auto simp: loc_setitem_def)
  then show ?thesis
    by (simp only: column_view_def view_masked_set[OF assms(3) assms(2)])
next
  case False
  with assms(1) have "rows tbl' = map (\<lambda>(m, (t, r)). (t, r(f := (if m then v else NaN))))
                        (zip bm (rows tbl))"
    by (auto simp: loc_setitem_def split: if_splits)
  then show ?thesis
    by (simp only: column_view_def view_masked_enlarge[OF assms(3) assms(2)])
qed

lemma latency_loop_other_column:
  "latency_loop lc tbl = Inr out \<Longrightarrow> c \<notin> fst ` set lc \<Longrightarrow> column_view c out = column_view c tbl"
proof (induction lc arbitrary: tbl)
  case Nil
  then show ?case by simp
next
  case (Cons p lc)
  obtain f T where p: "p = (f, T)" by (cases p)
  from Cons.prems(1) p obtain hcol tbl' where
    g: "getitem tbl ''Horizon'' = Inr hcol"
    and l: "loc_setitem tbl (series_gt hcol T) f NaN = Inr tbl'"
    and r: "latency_loop lc tbl' = Inr out"
    by (auto split: sum.splits)
  from g have len: "length (series_gt hcol T) = length (rows tbl)"
    by (auto simp: getitem_def series_gt_def split: if_splits)
  from Cons.prems(2) p have "c \<noteq> f" "c \<notin> fst ` set lc" by auto
  with Cons.IH[OF r] loc_setitem_other_column[OF l _ len] show ?case by simp
qed

lemma mset_sort_index_view:
  "mset (map g (rows (sort_index t))) = mset (map g (rows t))"
proof -
  have "mset (map g (sort_key fst (rows t))) = image_mset g (mset (sort_key fst (rows t)))"
    by simp
  then show ?thesis by (simp add: sort_index_def)
qed

lemma length_sort_index: "length (rows (sort_index t)) = length (rows t)"
  by (simp add: sort_index_def)

lemma tagged_rows_setitem:
  "c \<noteq> ''Horizon'' \<Longrightarrow>
     tagged_rows c (setitem r ''Horizon'' v) = map (\<lambda>(t, a). (t, v, a)) (column_view c r)"
  by (simp add: tagged_rows_def setitem_def column_view_def comp_def case_prod_unfold)

lemma tagged_rows_append:
  assumes "rows a = [] \<or> (c \<in> set (columns a) \<and> ''Horizon'' \<in> set (columns a))"
    and "c \<in> set (columns b)" and "''Horizon'' \<in> set (columns b)"
  shows "tagged_rows c (df_append a b) = tagged_rows c a @ tagged_rows c b"
  using assms by (auto simp: tagged_rows_def df_append_def reindex_def)

lemma columns_setitem_mono: "c \<in> set (columns r) \<Longrightarrow> c \<in> set (columns (setitem r c' v))"
  by (simp add: setitem_def)

lemma latency_step_unmasked:
  assumes "f \<in> set (columns tbl)" and "''Horizon'' \<in> set (columns tbl)"
    and "\<forall>x\<in>set (rows tbl). \<not> gt_mask T x"
  shows "latency_loop [(f, T)] tbl = Inr tbl"
proof -
  have "map (\<lambda>x. (\<lambda>(m, (t, r)). if m then (t, r(f := NaN)) else (t, r)) (gt_mask T x, x)) (rows tbl)
          = map (\<lambda>x. x) (rows tbl)"
    using assms(3) by (intro map_cong) (auto split: prod.splits)
  then show ?thesis
    using assms(1,2)
    by (simp add: getitem_def loc_setitem_def series_gt_rows map_zip_map)
qed

lemma gt_mask_tagged:
  "(\<forall>x\<in>set (rows tbl). \<not> gt_mask T x) \<longleftrightarrow>
   (\<forall>(t, hz, a)\<in>set (tagged_rows c tbl). case hz of NaN \<Rightarrow> True | Val y \<Rightarrow> \<not> y > T)"
  by (auto simp: gt_mask_def tagged_rows_def split: cell.splits)

text \<open>
  C6. When every table the collaborator returns for a configured horizon has the row index
  of the input, a table returned by the training variant has as many rows as the input
  has, times the number of horizons, and its index is the input index once per horizon.
  The loop over the horizons accumulates one block per horizon, every index label of the
  input tagged with that horizon in the column \<^verbatim>\<open>Horizon\<close>; the returned table carries
  the same tags unless the latency config itself names the column \<^verbatim>\<open>Horizon\<close>.
\<close>

theorem train_row_count:
  assumes "horizons self = PyList hs"
    and "\<forall>h\<in>set hs. \<forall>res. af df (feature_names self) h = Inr res \<longrightarrow> df_index res = df_index df"
    and "snd (train_add_features af self df lc) = Inr out"
  shows "length (rows out) = length (rows df) * length hs
     \<and> mset (df_index out) = mset (concat (map (\<lambda>h. df_index df) hs))
     \<and> (\<exists>acc. horizon_loop af df (feature_names self) hs DataFrame = Inr acc
              \<and> column_view ''Horizon'' acc = horizon_blocks hs (df_index df))
     \<and> (''Horizon'' \<notin> fst ` set lc \<longrightarrow>
          mset (column_view ''Horizon'' out) = mset (horizon_blocks hs (df_index df)))"
proof -
  from assms(3) obtain hs' acc result' where
    it: "py_iter (if horizons self = PyNone then PyList [0.25, 24] else horizons self) = Inr hs'"
    and hl: "horizon_loop af df (feature_names self) hs' DataFrame = Inr acc"
    and ll: "latency_loop lc acc = Inr result'"
    and out: "out = sort_index result'"
    by (rule train_result_cases)
  from it assms(1) have hs': "hs' = hs" by simp
  note hl = hl[unfolded hs']
  have idx_acc: "df_index acc = concat (map (\<lambda>h. df_index df) hs)"
    using horizon_loop_index[OF assms(2) hl] by (simp add: df_index_def DataFrame_def)
  have tags_acc: "column_view ''Horizon'' acc = horizon_blocks hs (df_index df)"
    using horizon_loop_tags[OF assms(2) hl] by (simp add: column_view_def DataFrame_def)
  have idx_res: "df_index result' = df_index acc"
    using nulled_from_index[OF latency_loop_nulled[OF ll]] by (simp add: df_index_def)
  have "mset (df_index out) = mset (df_index result')"
    unfolding out df_index_def by (rule mset_sort_index_view)
  with idx_res have idx_out: "mset (df_index out) = mset (df_index acc)"
    by simp
  have "length (df_index out) = length (df_index acc)"
    using idx_out by (metis size_mset)
  then have len: "length (rows out) = length (rows df) * length hs"
    unfolding idx_acc by (simp add: df_index_def length_concat comp_def sum_list_triv)
  have tags_out: "mset (column_view ''Horizon'' out) = mset (horizon_blocks hs (df_index df))"
    if "''Horizon'' \<notin> fst ` set lc"
  proof -
    have "mset (column_view ''Horizon'' out) = mset (column_view ''Horizon'' result')"
      unfolding out column_view_def by (rule mset_sort_index_view)
    with latency_loop_other_column[OF ll that] tags_acc show ?thesis by simp
  qed
  from len idx_out idx_acc hl tags_acc tags_out show ?thesis by simp
qed

theorem train_row_count_witness:
  "\<exists>out. snd (train_add_features example_features
             \<lparr>horizons = PyList [0.25, 48], feature_names = None\<rparr> small_table LATENCY_CONFIG) = Inr out
     \<and> (\<forall>h\<in>set [0.25, 48]. \<forall>res. example_features small_table None h = Inr res
            \<longrightarrow> df_index res = df_index small_table)
     \<and> ''Horizon'' \<notin> fst ` set LATENCY_CONFIG
     \<and> length (rows out) = 2 * 2
     \<and> mset (column_view ''Horizon'' out) = {#(0, Val 0.25), (1, Val 0.25), (0, Val 48), (1, Val 48)#}"
proof -
  let ?self = "\<lparr>horizons = PyList [0.25, 48], feature_names = None\<rparr>"
  let ?res = "snd (train_add_features example_features ?self small_table LATENCY_CONFIG)"
  have "\<exists>out. ?res = Inr out"
    by (simp add: train_add_features_def example_features_def small_table_def
      LATENCY_CONFIG_def DataFrame_def df_append_def setitem_def getitem_def
      loc_setitem_def Let_def)
  then obtain out where out: "?res = Inr out" ..
  have h1: "horizons ?self = PyList [0.25, 48]" by simp
  have h2: "\<forall>h\<in>set [0.25, 48]. \<forall>res. example_features small_table (feature_names ?self) h = Inr res
            \<longrightarrow> df_index res = df_index small_table"
    by (auto simp: example_features_def Let_def df_index_setitem)
  have h3: "''Horizon'' \<notin> fst ` set LATENCY_CONFIG" by (simp add: LATENCY_CONFIG_def)
  have idx: "df_index small_table = [0, 1]"
    by (simp add: df_index_def small_table_def example_row_def)
  from train_row_count[OF h1 h2 out] h3 idx
  have "length (rows out) = 2 * 2
     \<and> mset (column_view ''Horizon'' out) = {#(0, Val 0.25), (1, Val 0.25), (0, Val 48), (1, Val 48)#}"
    by (simp add: horizon_blocks_def small_table_def)
  with out h2 h3 show ?thesis by simp
qed

text \<open>
  C2. The scenario: horizons \<^verbatim>\<open>[0.25, 24]\<close>, ten input rows with a column \<^verbatim>\<open>APX\<close>, latency
  config \<^verbatim>\<open>{"APX": 24}\<close>, a collaborator that keeps the index and the column. The claim is
  that the rows tagged 24 have \<^verbatim>\<open>APX\<close> missing. The comparison of the source is strict,
  \<^verbatim>\<open>result["Horizon"] > time\<close>, and 24 is not greater than 24: the output has 20 rows,
  is sorted, and consists of the input rows tagged 0.25 and the input rows tagged 24, all
  of them with their original \<^verbatim>\<open>APX\<close>.
\<close>

theorem train_scenario:
  assumes "horizons self = PyList [0.25, 24]"
    and "length (rows df) = 10"
    and "''APX'' \<in> set (columns df)"
    and "keeps_column af df (feature_names self) 0.25 ''APX''"
    and "keeps_column af df (feature_names self) 24 ''APX''"
  shows "\<exists>out. snd (train_add_features af self df [(''APX'', 24)]) = Inr out
     \<and> length (rows out) = 20
     \<and> sorted (df_index out)
     \<and> mset (tagged_rows ''APX'' out)
         = mset (map (\<lambda>(t, a). (t, Val 0.25, a)) (column_view ''APX'' df))
         + mset (map (\<lambda>(t, a). (t, Val 24, a)) (column_view ''APX'' df))"
proof -
  from assms(4) obtain r1 where r1: "af df (feature_names self) 0.25 = Inr r1"
    and c1: "''APX'' \<in> set (columns r1)" and v1: "column_view ''APX'' r1 = column_view ''APX'' df"
    unfolding keeps_column_def by blast
  from assms(5) obtain r2 where r2: "af df (feature_names self) 24 = Inr r2"
    and c2: "''APX'' \<in> set (columns r2)" and v2: "column_view ''APX'' r2 = column_view ''APX'' df"
    unfolding keeps_column_def by blast
  define b1 where "b1 = setitem r1 ''Horizon'' (Val 0.25)"
  define b2 where "b2 = setitem r2 ''Horizon'' (Val 24)"
  define acc1 where "acc1 = df_append DataFrame b1"
  define acc where "acc = df_append acc1 b2"
  have hl: "horizon_loop af df (feature_names self) [0.25, 24] DataFrame = Inr acc"
    using r1 r2 by (simp add: acc_def acc1_def b1_def b2_def)
  have cb1: "''APX'' \<in> set (columns b1)" "''Horizon'' \<in> set (columns b1)"
    unfolding b1_def using c1 by (simp_all add: columns_setitem_mono columns_setitem)
  have cb2: "''APX'' \<in> set (columns b2)" "''Horizon'' \<in> set (columns b2)"
    unfolding b2_def using c2 by (simp_all add: columns_setitem_mono columns_setitem)
  have ca1: "''APX'' \<in> set (columns acc1)" "''Horizon'' \<in> set (columns acc1)"
    unfolding acc1_def using cb1 by (simp_all add: columns_append)
  have ca: "''APX'' \<in> set (columns acc)" "''Horizon'' \<in> set (columns acc)"
    unfolding acc_def using ca1 by (simp_all add: columns_append)
  have t1: "tagged_rows ''APX'' b1 = map (\<lambda>(t, a). (t, Val 0.25, a)) (column_view ''APX'' df)"
    unfolding b1_def by (simp add: tagged_rows_setitem v1)
  have t2: "tagged_rows ''APX'' b2 = map (\<lambda>(t, a). (t, Val 24, a)) (column_view ''APX'' df)"
    unfolding b2_def by (simp add: tagged_rows_setitem v2)
  have "tagged_rows ''APX'' acc1 = tagged_rows ''APX'' b1"
    unfolding acc1_def using cb1
    by (auto simp: tagged_rows_def df_append_def DataFrame_def reindex_def)
  moreover have "tagged_rows ''APX'' acc = tagged_rows ''APX'' acc1 @ tagged_rows ''APX'' b2"
    unfolding acc_def using ca1 cb2 by (simp add: tagged_rows_append)
  ultimately have tacc: "tagged_rows ''APX'' acc
      = map (\<lambda>(t, a). (t, Val 0.25, a)) (column_view ''APX'' df)
        @ map (\<lambda>(t, a). (t, Val 24, a)) (column_view ''APX'' df)"
    by (simp add: t1 t2)
  have "\<forall>x\<in>set (rows acc). \<not> gt_mask 24 x"
    unfolding gt_mask_tagged[of acc 24 "''APX''"] tacc by auto
  from latency_step_unmasked[OF ca this]
  have ll: "latency_loop [(''APX'', 24)] acc = Inr acc" .
  have res: "snd (train_add_features af self df [(''APX'', 24)]) = Inr (sort_index acc)"
    using hl ll assms(1) by (simp add: train_add_features_def Let_def)
  have m: "mset (tagged_rows ''APX'' (sort_index acc)) = mset (tagged_rows ''APX'' acc)"
    unfolding tagged_rows_def by (rule mset_sort_index_view)
  have "length (rows acc) = length (tagged_rows ''APX'' acc)"
    by (simp add: tagged_rows_def)
  also have "\<dots> = 20"
    unfolding tacc using assms(2) by (simp add: column_view_def)
  finally have len: "length (rows (sort_index acc)) = 20"
    by (simp add: length_sort_index)
  have srt: "sorted (df_index (sort_index acc))"
    by (simp add: df_index_def sort_index_def)
  from res len srt m tacc show ?thesis by simp
qed

theorem train_scenario_witness:
  "\<exists>out. snd (train_add_features passthrough_features
              \<lparr>horizons = PyList [0.25, 24], feature_names = None\<rparr> example_table
              [(''APX'', 24)]) = Inr out
     \<and> length (rows example_table) = 10
     \<and> ''APX'' \<in> set (columns example_table)
     \<and> keeps_column passthrough_features example_table None 0.25 ''APX''
     \<and> keeps_column passthrough_features example_table None 24 ''APX''
     \<and> length (rows out) = 20
     \<and> sorted (df_index out)
     \<and> (3, Val 0.25, Val 103) \<in># mset (tagged_rows ''APX'' out)
     \<and> (3, Val 24, Val 103) \<in># mset (tagged_rows ''APX'' out)"
proof -
  let ?self = "\<lparr>horizons = PyList [0.25, 24], feature_names = None\<rparr>"
  have h1: "horizons ?self = PyList [0.25, 24]" by simp
  have h2: "length (rows example_table) = 10" by (simp add: example_table_def)
  have h3: "''APX'' \<in> set (columns example_table)" by (simp add: example_table_def)
  have h4: "keeps_column passthrough_features example_table (feature_names ?self) 0.25 ''APX''"
    by (simp add: keeps_column_def passthrough_features_def example_table_def)
  have h5: "keeps_column passthrough_features example_table (feature_names ?self) 24 ''APX''"
    by (simp add: keeps_column_def passthrough_features_def example_table_def)
  have v: "(3, Val 103) \<in> set (column_view ''APX'' example_table)"
    by (simp add: column_view_def example_table_def example_row_def)
  from train_scenario[OF h1 h2 h3 h4 h5] obtain out where
    out: "snd (train_add_features passthrough_features ?self example_table [(''APX'', 24)]) = Inr out"
    and len: "length (rows out) = 20" and srt: "sorted (df_index out)"
    and m: "mset (tagged_rows ''APX'' out)
         = mset (map (\<lambda>(t, a). (t, Val 0.25, a)) (column_view ''APX'' example_table))
         + mset (map (\<lambda>(t, a). (t, Val 24, a)) (column_view ''APX'' example_table))"
    by blast
  from v have "(3, Val 0.25, Val 103) \<in> set (map (\<lambda>(t, a). (t, Val 0.25, a)) (column_view ''APX'' example_table))"
    and "(3, Val 24, Val 103) \<in> set (map (\<lambda>(t, a). (t, Val 24, a)) (column_view ''APX'' example_table))"
    by force+
  with m have "(3, Val 0.25, Val 103) \<in># mset (tagged_rows ''APX'' out)"
    and "(3, Val 24, Val 103) \<in># mset (tagged_rows ''APX'' out)"
    by simp_all
  with out len srt h2 h3 h4 h5 show ?thesis by simp
qed

text \<open>
  The claim as it was stated fails on the ten-row example: the row of timestamp 0 tagged
  with horizon 24 still carries its price.
\<close>

theorem train_scenario_counterexample:
  "(0, Val 24, Val 100) \<in> set (result_rows ''APX''
      (snd (train_add_features passthrough_features
              \<lparr>horizons = PyList [0.25, 24], feature_names = None\<rparr> example_table
              [(''APX'', 24)])))"
  by (simp add: train_add_features_def passthrough_features_def example_table_def
      DataFrame_def df_append_def setitem_def reindex_def getitem_def
      series_gt_def loc_setitem_def sort_index_def result_rows_def tagged_rows_def
      example_row_def)

subsection \<open>The single-horizon variants\<close>

lemma add_missing_model_contract: "adds_missing_columns add_missing_model"
  unfolding adds_missing_columns_def add_missing_model_def add_missing_feature_columns_def
  by (auto simp: list_all2_map2 kept_cells_def missing_cells_def reindex_def
      intro!: list.rel_refl_strong)

lemma remove_extra_model_contract: "removes_extra_columns remove_extra_model"
  unfolding removes_extra_columns_def remove_extra_model_def remove_extra_feature_columns_def
  by (auto simp: list_all2_map2 kept_cells_def reindex_def intro!: list.rel_refl_strong)

lemma reconcile_columns_contract:
  assumes "adds_missing_columns am" and "removes_extra_columns re"
  shows "\<exists>out. reconcile_columns am re (Some fnames) computed = Inr out
     \<and> set (columns out) = set fnames
     \<and> list_all2 (\<lambda>old new. kept_cells (set (columns computed) \<inter> set fnames) old new
                    \<and> missing_cells (set fnames - set (columns computed)) new)
          (rows computed) (rows out)"
proof -
  from assms(1) obtain d1 where a: "am computed (Some fnames) = Inr d1"
    and c1: "set (columns d1) = set (columns computed) \<union> set fnames"
    and r1: "list_all2 (\<lambda>old new. kept_cells (set (columns computed)) old new
                        \<and> missing_cells (set fnames - set (columns computed)) new)
              (rows computed) (rows d1)"
    unfolding adds_missing_columns_def by blast
  from assms(2) obtain d2 where b: "re d1 (Some fnames) = Inr d2"
    and c2: "set (columns d2) = set (columns d1) \<inter> set fnames"
    and r2: "list_all2 (kept_cells (set (columns d1) \<inter> set fnames)) (rows d1) (rows d2)"
    unfolding removes_extra_columns_def by blast
  have "list_all2 (\<lambda>old new. kept_cells (set (columns computed) \<inter> set fnames) old new
                    \<and> missing_cells (set fnames - set (columns computed)) new)
          (rows computed) (rows d2)"
    using r1 r2
  proof (rule list_all2_trans[rotated])
    fix x y z
    assume "kept_cells (set (columns computed)) x y
              \<and> missing_cells (set fnames - set (columns computed)) y"
      and "kept_cells (set (columns d1) \<inter> set fnames) y z"
    then show "kept_cells (set (columns computed) \<inter> set fnames) x z
              \<and> missing_cells (set fnames - set (columns computed)) z"
      unfolding c1 kept_cells_def missing_cells_def by auto
  qed
  moreover have "set (columns d2) = set fnames" using c1 c2 by auto
  moreover have "reconcile_columns am re (Some fnames) computed = Inr d2"
    by (simp add: reconcile_columns_def a b)
  ultimately show ?thesis by blast
qed

text \<open>
  C8. With one configured horizon, a supplied list of feature names and reconciliation
  collaborators that meet their contracts, the operational and the backtest variant
  return a table whose columns are exactly the requested names whenever the feature
  computation returns a table: a requested column that was computed keeps its cells, a
  requested column that was not computed is missing on every row, and nothing else is
  left.
\<close>

theorem single_horizon_column_set:
  assumes "adds_missing_columns am" and "removes_extra_columns re"
    and "horizons self = PyList [h]" and "feature_names self = Some fnames"
  shows "(\<forall>computed. af df (Some fnames) h = Inr computed \<longrightarrow>
            (\<exists>out. operational_add_features af am re self df = Inr out
                \<and> set (columns out) = set fnames
                \<and> list_all2 (\<lambda>old new. kept_cells (set (columns computed) \<inter> set fnames) old new
                               \<and> missing_cells (set fnames - set (columns computed)) new)
                     (rows computed) (rows out)))
       \<and> (\<forall>computed. af df None h = Inr computed \<longrightarrow>
            (\<exists>out. backtest_add_features af am re self df = Inr out
                \<and> set (columns out) = set fnames
                \<and> list_all2 (\<lambda>old new. kept_cells (set (columns computed) \<inter> set fnames) old new
                               \<and> missing_cells (set fnames - set (columns computed)) new)
                     (rows computed) (rows out)))"
proof (intro conjI allI impI)
  fix computed
  assume "af df (Some fnames) h = Inr computed"
  then have "operational_add_features af am re self df
               = reconcile_columns am re (Some fnames) computed"
    using assms(3,4) by (simp add: operational_add_features_def)
  with reconcile_columns_contract[OF assms(1,2), of fnames computed]
  show "\<exists>out. operational_add_features af am re self df = Inr out
                \<and> set (columns out) = set fnames
                \<and> list_all2 (\<lambda>old new. kept_cells (set (columns computed) \<inter> set fnames) old new
                               \<and> missing_cells (set fnames - set (columns computed)) new)
                     (rows computed) (rows out)"
    by simp
next
  fix computed
  assume "af df None h = Inr computed"
  then have "backtest_add_features af am re self df
               = reconcile_columns am re (Some fnames) computed"
    using assms(3,4) by (simp add: backtest_add_features_def)
  with reconcile_columns_contract[OF assms(1,2), of fnames computed]
  show "\<exists>out. backtest_add_features af am re self df = Inr out
                \<and> set (columns out) = set fnames
                \<and> list_all2 (\<lambda>old new. kept_cells (set (columns computed) \<inter> set fnames) old new
                               \<and> missing_cells (set fnames - set (columns computed)) new)
                     (rows computed) (rows out)"
    by simp
qed

theorem single_horizon_column_set_witness:
  "adds_missing_columns add_missing_model \<and> removes_extra_columns remove_extra_model
   \<and> (\<exists>computed. example_features small_table (Some [''T-720min'', ''APX'']) 48 = Inr computed
         \<and> columns computed = [''load'', ''APX''])
   \<and> (\<exists>out. operational_add_features example_features add_missing_model remove_extra_model
               \<lparr>horizons = PyList [48], feature_names = Some [''T-720min'', ''APX'']\<rparr> small_table
             = Inr out \<and> set (columns out) = {''T-720min'', ''APX''})
   \<and> (\<exists>computed. example_features small_table None 48 = Inr computed
         \<and> columns computed = [''load'', ''APX'', ''T-7d''])
   \<and> (\<exists>out. backtest_add_features example_features add_missing_model remove_extra_model
               \<lparr>horizons = PyList [48], feature_names = Some [''T-720min'', ''APX'']\<rparr> small_table
             = Inr out \<and> set (columns out) = {''T-720min'', ''APX''})"
proof -
  let ?self = "\<lparr>horizons = PyList [48], feature_names = Some [''T-720min'', ''APX'']\<rparr>"
  have h3: "horizons ?self = PyList [48]" and h4: "feature_names ?self = Some [''T-720min'', ''APX'']"
    by simp_all
  have e1: "\<exists>computed. example_features small_table (Some [''T-720min'', ''APX'']) 48 = Inr computed
         \<and> columns computed = [''load'', ''APX'']"
    by (simp add: example_features_def small_table_def Let_def)
  have e2: "\<exists>computed. example_features small_table None 48 = Inr computed
         \<and> columns computed = [''load'', ''APX'', ''T-7d'']"
    by (simp add: example_features_def small_table_def Let_def setitem_def)
  note t = single_horizon_column_set[OF add_missing_model_contract remove_extra_model_contract h3 h4,
      of example_features small_table]
  from t e1 have o: "\<exists>out. operational_add_features example_features add_missing_model
               remove_extra_model ?self small_table = Inr out
             \<and> set (columns out) = {''T-720min'', ''APX''}"
    by fastforce
  from t e2 have b: "\<exists>out. backtest_add_features example_features add_missing_model
               remove_extra_model ?self small_table = Inr out
             \<and> set (columns out) = {''T-720min'', ''APX''}"
    by fastforce
  from add_missing_model_contract remove_extra_model_contract e1 e2 o b show ?thesis
    by blast
qed

lemma requested_only_backtest_eval:
  "result_columns (backtest_add_features requested_only_features add_missing_model remove_extra_model
        \<lparr>horizons = PyList [24], feature_names = Some [''T-14d'', ''APX'']\<rparr> small_table)
     = [''APX'', ''T-14d'']
   \<and> result_column ''T-14d'' (backtest_add_features requested_only_features add_missing_model
        remove_extra_model
        \<lparr>horizons = PyList [24], feature_names = Some [''T-14d'', ''APX'']\<rparr> small_table)
     = [(0, NaN), (1, NaN)]"
  by (simp add: backtest_add_features_def reconcile_columns_def requested_only_features_def
      add_missing_model_def remove_extra_model_def add_missing_feature_columns_def
      remove_extra_feature_columns_def small_table_def example_row_def setitem_def
      reindex_def result_columns_def result_column_def column_view_def)

lemma requested_only_operational_eval:
  "result_columns (operational_add_features requested_only_features add_missing_model
        remove_extra_model
        \<lparr>horizons = PyList [24], feature_names = Some [''T-14d'', ''APX'']\<rparr> small_table)
     = [''APX'', ''T-14d'']
   \<and> result_column ''T-14d'' (operational_add_features requested_only_features add_missing_model
        remove_extra_model
        \<lparr>horizons = PyList [24], feature_names = Some [''T-14d'', ''APX'']\<rparr> small_table)
     = [(0, Val 3), (1, Val 3)]"
  by (simp add: operational_add_features_def reconcile_columns_def requested_only_features_def
      add_missing_model_def remove_extra_model_def add_missing_feature_columns_def
      remove_extra_feature_columns_def small_table_def example_row_def setitem_def
      reindex_def result_columns_def result_column_def column_view_def)

text \<open>
  C9. With one configured horizon, the backtest variant calls the feature computation with
  no filter (\<open>None\<close>) and the operational variant with the configured feature names;
  each passes the computed table first to the collaborator that adds columns and then to
  the one that removes columns, both with the configured names. When these two meet their
  contracts and names are configured, the table either variant returns has exactly the
  requested columns, whatever columns the computation produced: a requested column that
  was computed keeps its cells, one that was not is missing on every row. So the backtest
  variant is the operational variant over a collaborator that never sees the filter.
\<close>

theorem backtest_unfiltered_operational_filtered:
  assumes "horizons self = PyList [h]"
  shows "backtest_add_features af am re self df
       = (case af df None h of
            Inl e \<Rightarrow> Inl e
          | Inr computed \<Rightarrow>
              (case am computed (feature_names self) of
                 Inl e \<Rightarrow> Inl e
               | Inr added \<Rightarrow> re added (feature_names self)))
   \<and> operational_add_features af am re self df
       = (case af df (feature_names self) h of
            Inl e \<Rightarrow> Inl e
          | Inr computed \<Rightarrow>
              (case am computed (feature_names self) of
                 Inl e \<Rightarrow> Inl e
               | Inr added \<Rightarrow> re added (feature_names self)))
   \<and> backtest_add_features af am re self df
       = operational_add_features (\<lambda>d fnames hz. af d None hz) am re self df
   \<and> (adds_missing_columns am \<and> removes_extra_columns re \<and> feature_names self = Some fnames \<longrightarrow>
        (\<forall>computed. af df None h = Inr computed \<longrightarrow>
            (\<exists>out. backtest_add_features af am re self df = Inr out
                \<and> set (columns out) = set fnames
                \<and> list_all2 (\<lambda>old new. kept_cells (set (columns computed) \<inter> set fnames) old new
                               \<and> missing_cells (set fnames - set (columns computed)) new)
                     (rows computed) (rows out)))
      \<and> (\<forall>computed. af df (Some fnames) h = Inr computed \<longrightarrow>
            (\<exists>out. operational_add_features af am re self df = Inr out
                \<and> set (columns out) = set fnames
                \<and> list_all2 (\<lambda>old new. kept_cells (set (columns computed) \<inter> set fnames) old new
                               \<and> missing_cells (set fnames - set (columns computed)) new)
                     (rows computed) (rows out))))"
proof (intro conjI impI allI)
  show "backtest_add_features af am re self df
       = (case af df None h of
            Inl e \<Rightarrow> Inl e
          | Inr computed \<Rightarrow>
              (case am computed (feature_names self) of
                 Inl e \<Rightarrow> Inl e
               | Inr added \<Rightarrow> re added (feature_names self)))"
    using assms by (simp add: backtest_add_features_def reconcile_columns_def split: sum.splits)
next
  show "operational_add_features af am re self df
       = (case af df (feature_names self) h of
            Inl e \<Rightarrow> Inl e
          | Inr computed \<Rightarrow>
              (case am computed (feature_names self) of
                 Inl e \<Rightarrow> Inl e
               | Inr added \<Rightarrow> re added (feature_names self)))"
    using assms by (simp add: operational_add_features_def reconcile_columns_def split: sum.splits)
next
  show "backtest_add_features af am re self df
       = operational_add_features (\<lambda>d fnames hz. af d None hz) am re self df"
    by (simp add: backtest_add_features_def operational_add_features_def)
next
  fix computed
  assume c: "adds_missing_columns am \<and> removes_extra_columns re \<and> feature_names self = Some fnames"
    and r: "af df None h = Inr computed"
  then have "backtest_add_features af am re self df
               = reconcile_columns am re (Some fnames) computed"
    using assms by (simp add: backtest_add_features_def)
  with reconcile_columns_contract[of am re fnames computed] c
  show "\<exists>out. backtest_add_features af am re self df = Inr out
                \<and> set (columns out) = set fnames
                \<and> list_all2 (\<lambda>old new. kept_cells (set (columns computed) \<inter> set fnames) old new
                               \<and> missing_cells (set fnames - set (columns computed)) new)
                     (rows computed) (rows out)"
    by simp
next
  fix computed
  assume c: "adds_missing_columns am \<and> removes_extra_columns re \<and> feature_names self = Some fnames"
    and r: "af df (Some fnames) h = Inr computed"
  then have "operational_add_features af am re self df
               = reconcile_columns am re (Some fnames) computed"
    using assms by (simp add: operational_add_features_def)
  with reconcile_columns_contract[of am re fnames computed] c
  show "\<exists>out. operational_add_features af am re self df = Inr out
                \<and> set (columns out) = set fnames
                \<and> list_all2 (\<lambda>old new. kept_cells (set (columns computed) \<inter> set fnames) old new
                               \<and> missing_cells (set fnames - set (columns computed)) new)
                     (rows computed) (rows out)"
    by simp
qed

theorem backtest_unfiltered_operational_filtered_witness:
  "horizons \<lparr>horizons = PyList [24], feature_names = Some [''T-14d'', ''APX'']\<rparr> = PyList [24]
   \<and> adds_missing_columns add_missing_model \<and> removes_extra_columns remove_extra_model
   \<and> result_columns (requested_only_features small_table None 24) = [''load'', ''APX'', ''T-7d'']
   \<and> result_columns (requested_only_features small_table (Some [''T-14d'', ''APX'']) 24)
        = [''load'', ''APX'', ''T-14d'']
   \<and> (\<exists>out. backtest_add_features requested_only_features add_missing_model remove_extra_model
               \<lparr>horizons = PyList [24], feature_names = Some [''T-14d'', ''APX'']\<rparr> small_table
             = Inr out
          \<and> set (columns out) = {''T-14d'', ''APX''}
          \<and> column_view ''T-14d'' out = [(0, NaN), (1, NaN)])
   \<and> (\<exists>out. operational_add_features requested_only_features add_missing_model remove_extra_model
               \<lparr>horizons = PyList [24], feature_names = Some [''T-14d'', ''APX'']\<rparr> small_table
             = Inr out
          \<and> set (columns out) = {''T-14d'', ''APX''}
          \<and> column_view ''T-14d'' out = [(0, Val 3), (1, Val 3)])"
proof -
  let ?self = "\<lparr>horizons = PyList [24], feature_names = Some [''T-14d'', ''APX'']\<rparr>"
  have h: "horizons ?self = PyList [24]" by simp
  have fn: "feature_names ?self = Some [''T-14d'', ''APX'']" by simp
  have c1: "result_columns (requested_only_features small_table None 24)
              = [''load'', ''APX'', ''T-7d'']"
    by (simp add: requested_only_features_def small_table_def setitem_def result_columns_def)
  have c2: "result_columns (requested_only_features small_table (Some [''T-14d'', ''APX'']) 24)
              = [''load'', ''APX'', ''T-14d'']"
    by (simp add: requested_only_features_def small_table_def setitem_def result_columns_def)
  obtain cb where cb: "requested_only_features small_table None 24 = Inr cb"
    by (simp add: requested_only_features_def)
  obtain co where co: "requested_only_features small_table (Some [''T-14d'', ''APX'']) 24 = Inr co"
    by (simp add: requested_only_features_def)
  note t = backtest_unfiltered_operational_filtered[OF h, of requested_only_features
      add_missing_model remove_extra_model small_table "[''T-14d'', ''APX'']"]
  from t add_missing_model_contract remove_extra_model_contract fn cb
  obtain ob where ob: "backtest_add_features requested_only_features add_missing_model
        remove_extra_model ?self small_table = Inr ob"
    and obc: "set (columns ob) = set [''T-14d'', ''APX'']"
    by blast
  from t add_missing_model_contract remove_extra_model_contract fn co
  obtain oo where oo: "operational_add_features requested_only_features add_missing_model
        remove_extra_model ?self small_table = Inr oo"
    and ooc: "set (columns oo) = set [''T-14d'', ''APX'']"
    by blast
  from requested_only_backtest_eval ob
  have vb: "column_view ''T-14d'' ob = [(0, NaN), (1, NaN)]"
    by (simp add: result_column_def)
  from requested_only_operational_eval oo
  have vo: "column_view ''T-14d'' oo = [(0, Val 3), (1, Val 3)]"
    by (simp add: result_column_def)
  from h add_missing_model_contract remove_extra_model_contract c1 c2 ob obc vb oo ooc vo
  show ?thesis by simp
qed

end
